theory Spec2Isabelle
  imports Main "HOL-Library.Char_ord" "HOL-Library.List_Lexorder"
begin

section \<open>Data model of \<^verbatim>\<open>src/handlers.ts\<close>\<close>

text \<open>
  The handlers work on two DynamoDB tables and one transport (the API Gateway
  management API). The tables are part of the state; the transport, the JSON parser of
  the runtime, the UUID generator and the clock are inputs of each request and are
  collected in an environment record.
\<close>

record client =
  connectionId :: string
  nickname :: string

record message =
  messageId :: string
  createdAt :: int
  nicknameToNickname :: string
  message_text :: string
  sender :: string

text \<open>
  A value returned by \<^verbatim>\<open>JSON.parse\<close>. Numbers are restricted to integers; an object
  is the list of its members, read with \<open>map_of\<close>.
\<close>

datatype json =
    JNull
  | JBool bool
  | JNumber int
  | JString string
  | JArray "json list"
  | JObject "(string \<times> json) list"

text \<open>
  What is handed to \<^verbatim>\<open>apiGw.postToConnection\<close> as \<^verbatim>\<open>Data\<close>. The source builds an
  object and passes it through \<^verbatim>\<open>JSON.stringify\<close>; the model keeps the object.
\<close>

datatype payload =
    Ping
  | ClientsMsg "client list"
  | MessageMsg message
  | MessagesMsg "message list"
  | ErrorMsg string

text \<open>
  The transport either accepts the data or rejects the call with an \<^verbatim>\<open>AWSError\<close>, whose
  \<^verbatim>\<open>statusCode\<close> may be absent. Status 410 is the stale endpoint.
\<close>

datatype outcome = Accepted | Rejected "int option"

text \<open>Everything the code can throw.\<close>

datatype exn =
    HandleError string
  | SyntaxError
  | TypeError
  | AWSError "int option"

record response =
  statusCode :: int
  body :: string

record SendMessageBody =
  sm_message :: string
  recipientNickname :: string

record GetMessagesBody =
  targetNickname :: string
  limit :: int
  startKey :: "json option"

record event =
  ev_connectionId :: string
  routeKey :: string
  queryStringParameters :: "(string \<rightharpoonup> string) option"
  ev_body :: "string option"

text \<open>
  The environment of one request: the answer of the transport to each call, the result
  of \<^verbatim>\<open>JSON.parse\<close> (\<open>None\<close> when it throws a \<^verbatim>\<open>SyntaxError\<close>), the value of
  \<^verbatim>\<open>v4()\<close>, the value of \<^verbatim>\<open>new Date().getTime()\<close>, and the items of an ordered query
  result that follow an \<^verbatim>\<open>ExclusiveStartKey\<close>.
\<close>

record env =
  transport :: "string \<Rightarrow> payload \<Rightarrow> outcome"
  JSON_parse :: "string \<Rightarrow> json option"
  v4 :: string
  getTime :: int
  exclusiveStart :: "json \<Rightarrow> message list \<Rightarrow> message list"

text \<open>
  The state: the table \<^verbatim>\<open>Clients\<close> (primary key \<^verbatim>\<open>connectionId\<close>), the table
  \<^verbatim>\<open>Messages\<close>, the calls made to the transport in the order they were issued, and the
  successive contents of \<^verbatim>\<open>Clients\<close>, one entry per write.
\<close>

record state =
  clients :: "client list"
  messages :: "message list"
  posted :: "(string \<times> payload) list"
  registryLog :: "client list list"

type_synonym 'a result = "(exn + 'a) \<times> state"

definition responseOk :: response where
  "responseOk = \<lparr>statusCode = 200, body = ''''\<rparr>"

definition responseForbidden :: response where
  "responseForbidden = \<lparr>statusCode = 403, body = ''''\<rparr>"

text \<open>
  \<^verbatim>\<open>await p; return v\<close>: a rejection of the awaited promise is the rejection of the
  caller.
\<close>

definition thenReturn :: "'a result \<Rightarrow> 'b \<Rightarrow> 'b result" where
  "thenReturn p v = ((case fst p of Inl x \<Rightarrow> Inl x | Inr _ \<Rightarrow> Inr v), snd p)"

section \<open>Store operations\<close>

text \<open>\<^verbatim>\<open>docClient.put\<close> on \<^verbatim>\<open>Clients\<close>: the item replaces the one with the same key.\<close>

definition putClient :: "client \<Rightarrow> state \<Rightarrow> state" where
  "putClient item s =
     (let cs = filter (\<lambda>c. connectionId c \<noteq> connectionId item) (clients s) @ [item]
      in s\<lparr>clients := cs, registryLog := registryLog s @ [cs]\<rparr>)"

text \<open>\<^verbatim>\<open>docClient.delete\<close> on \<^verbatim>\<open>Clients\<close>; deleting an absent key is no error.\<close>

definition deleteClient :: "string \<Rightarrow> state \<Rightarrow> state" where
  "deleteClient cid s =
     (let cs = filter (\<lambda>c. connectionId c \<noteq> cid) (clients s)
      in s\<lparr>clients := cs, registryLog := registryLog s @ [cs]\<rparr>)"

text \<open>
  Modelled from the spec: the primary key of \<^verbatim>\<open>Messages\<close> is \<^verbatim>\<open>messageId\<close> (the table
  definition is not among the sources); \<^verbatim>\<open>docClient.put\<close> replaces the item with the same
  key.
\<close>

definition putMessage :: "message \<Rightarrow> state \<Rightarrow> state" where
  "putMessage m s =
     s\<lparr>messages := filter (\<lambda>x. messageId x \<noteq> messageId m) (messages s) @ [m]\<rparr>"

definition getConnectionIdByNickname :: "string \<Rightarrow> state \<Rightarrow> string option" where
  "getConnectionIdByNickname n s =
     (case filter (\<lambda>c. nickname c = n) (clients s) of
        [] \<Rightarrow> None
      | c # _ \<Rightarrow> Some (connectionId c))"

definition getAllClients :: "state \<Rightarrow> client list" where
  "getAllClients s = clients s"

definition getClient :: "string \<Rightarrow> state \<Rightarrow> client option" where
  "getClient cid s = find (\<lambda>c. connectionId c = cid) (clients s)"

section \<open>Delivery\<close>

text \<open>
  \<^verbatim>\<open>postToConnection\<close>: \<open>True\<close> when the transport accepts; on status 410 the row of the
  connection is deleted and the result is \<open>False\<close>; any other error is thrown again.
\<close>

definition postToConnection :: "env \<Rightarrow> string \<Rightarrow> payload \<Rightarrow> state \<Rightarrow> bool result" where
  "postToConnection e cid d s =
     (let s1 = s\<lparr>posted := posted s @ [(cid, d)]\<rparr>
      in case transport e cid d of
           Accepted \<Rightarrow> (Inr True, s1)
         | Rejected code \<Rightarrow>
             if code \<noteq> Some 410 then (Inl (AWSError code), s1)
             else (Inr False, deleteClient cid s1))"

definition createClientsMessage :: "client list \<Rightarrow> payload" where
  "createClientsMessage cs = ClientsMsg cs"

text \<open>
  \<^verbatim>\<open>Promise.all\<close> over the pushes of \<^verbatim>\<open>notifyClients\<close>. Every call is issued before any
  of them settles, so a rejection stops none of the others; the model settles them in
  list order and reports the first rejection.
\<close>

fun postAll :: "env \<Rightarrow> payload \<Rightarrow> client list \<Rightarrow> state \<Rightarrow> unit result" where
  "postAll e d [] s = (Inr (), s)"
| "postAll e d (c # cs) s =
     (let p = postToConnection e (connectionId c) d s;
          q = postAll e d cs (snd p)
      in ((case fst p of Inl x \<Rightarrow> Inl x | Inr _ \<Rightarrow> fst q), snd q))"

definition notifyClients :: "env \<Rightarrow> string \<Rightarrow> state \<Rightarrow> unit result" where
  "notifyClients e connectionIdToExclude s =
     (let cs = getAllClients s
      in postAll e (createClientsMessage cs)
           (filter (\<lambda>c. connectionId c \<noteq> connectionIdToExclude) cs) s)"

section \<open>Presence\<close>

text \<open>Lines 114 to 124 of \<^verbatim>\<open>handleConnect\<close>: the insert and the roster broadcast.\<close>

definition claimNickname :: "env \<Rightarrow> string \<Rightarrow> string \<Rightarrow> state \<Rightarrow> response result" where
  "claimNickname e cid n s =
     thenReturn (notifyClients e cid (putClient \<lparr>connectionId = cid, nickname = n\<rparr> s))
       responseOk"

text \<open>
  \<^verbatim>\<open>!queryParams["nickname"]\<close> holds for an absent and for an empty nickname;
  \<^verbatim>\<open>existingConnectionId && ...\<close> skips the ping when the identifier found is absent or
  the empty string.
\<close>

definition handleConnect ::
  "env \<Rightarrow> string \<Rightarrow> (string \<rightharpoonup> string) option \<Rightarrow> state \<Rightarrow> response result" where
  "handleConnect e cid queryParams s =
     (case queryParams of
        None \<Rightarrow> (Inr responseForbidden, s)
      | Some q \<Rightarrow>
          (case q ''nickname'' of
             None \<Rightarrow> (Inr responseForbidden, s)
           | Some n \<Rightarrow>
               if n = [] then (Inr responseForbidden, s)
               else
                 (case getConnectionIdByNickname n s of
                    None \<Rightarrow> claimNickname e cid n s
                  | Some existing \<Rightarrow>
                      if existing = [] then claimNickname e cid n s
                      else
                        (let p = postToConnection e existing Ping s
                         in case fst p of
                              Inl x \<Rightarrow> (Inl x, snd p)
                            | Inr True \<Rightarrow> (Inr responseForbidden, snd p)
                            | Inr False \<Rightarrow> claimNickname e cid n (snd p)))))"

definition handleDisconnect :: "env \<Rightarrow> string \<Rightarrow> state \<Rightarrow> response result" where
  "handleDisconnect e cid s =
     thenReturn (notifyClients e cid (deleteClient cid s)) responseOk"

definition handleGetClients :: "env \<Rightarrow> string \<Rightarrow> state \<Rightarrow> response result" where
  "handleGetClients e cid s =
     thenReturn (postToConnection e cid (createClientsMessage (getAllClients s)) s)
       responseOk"

section \<open>Messages\<close>

text \<open>\<^verbatim>\<open>Array.prototype.join\<close> on strings.\<close>

fun join :: "string \<Rightarrow> string list \<Rightarrow> string" where
  "join sep [] = []"
| "join sep [x] = x"
| "join sep (x # y # ys) = x @ sep @ join sep (y # ys)"

text \<open>
  \<^verbatim>\<open>nicknames.sort().join("#")\<close>: the default sort of JavaScript orders strings by their
  code units, which is the lexicographic order of \<open>char list\<close>.
\<close>

definition getNicknameToNickname :: "string list \<Rightarrow> string" where
  "getNicknameToNickname nicknames = join ''#'' (sort nicknames)"

text \<open>The object \<^verbatim>\<open>message\<close> that \<^verbatim>\<open>handleSendMessage\<close> builds and stores.\<close>

definition buildMessage :: "env \<Rightarrow> client \<Rightarrow> SendMessageBody \<Rightarrow> message" where
  "buildMessage e senderClient b =
     \<lparr>messageId = v4 e,
      createdAt = getTime e,
      nicknameToNickname = getNicknameToNickname [nickname senderClient, recipientNickname b],
      message_text = sm_message b,
      sender = nickname senderClient\<rparr>"

text \<open>
  \<^verbatim>\<open>handleSendMessage\<close>. Reading \<^verbatim>\<open>nickname\<close> of the absent item of an unregistered
  connection throws a \<^verbatim>\<open>TypeError\<close>.
\<close>

definition handleSendMessage :: "env \<Rightarrow> string \<Rightarrow> SendMessageBody \<Rightarrow> state \<Rightarrow> response result" where
  "handleSendMessage e senderConnectionId b s =
     (case getClient senderConnectionId s of
        None \<Rightarrow> (Inl TypeError, s)
      | Some senderClient \<Rightarrow>
          (let m = buildMessage e senderClient b;
               s1 = putMessage m s
           in case getConnectionIdByNickname (recipientNickname b) s1 of
                None \<Rightarrow> (Inr responseOk, s1)
              | Some recipientConnectionId \<Rightarrow>
                  if recipientConnectionId = [] then (Inr responseOk, s1)
                  else
                    thenReturn (postToConnection e recipientConnectionId (MessageMsg m) s1)
                      responseOk))"

text \<open>
  Modelled from the spec: the index \<^verbatim>\<open>NicknameToNicknameIndex\<close> is declared outside the
  sources; the spec orders a conversation by \<^verbatim>\<open>createdAt\<close>, and the query asks for the
  descending direction (\<^verbatim>\<open>ScanIndexForward: false\<close>).
\<close>

definition newestFirst :: "message list \<Rightarrow> message list" where
  "newestFirst ms = rev (sort_key createdAt ms)"

text \<open>
  The query of \<^verbatim>\<open>handleGetMessages\<close>. The store rejects a \<^verbatim>\<open>Limit\<close> below 1 with a
  validation error (status 400).
\<close>

definition queryMessages ::
  "env \<Rightarrow> string \<Rightarrow> int \<Rightarrow> json option \<Rightarrow> state \<Rightarrow> exn + message list" where
  "queryMessages e k lim start s =
     (if lim < 1 then Inl (AWSError (Some 400))
      else
        (let items = newestFirst (filter (\<lambda>m. nicknameToNickname m = k) (messages s));
             rest = (case start of None \<Rightarrow> items | Some key \<Rightarrow> exclusiveStart e key items)
         in Inr (take (nat lim) rest)))"

definition handleGetMessages :: "env \<Rightarrow> string \<Rightarrow> GetMessagesBody \<Rightarrow> state \<Rightarrow> response result" where
  "handleGetMessages e cid b s =
     (case getClient cid s of
        None \<Rightarrow> (Inl TypeError, s)
      | Some c \<Rightarrow>
          (case queryMessages e (getNicknameToNickname [nickname c, targetNickname b])
                  (limit b) (startKey b) s of
             Inl x \<Rightarrow> (Inl x, s)
           | Inr ms \<Rightarrow> thenReturn (postToConnection e cid (MessagesMsg ms) s) responseOk))"

section \<open>Request parsing and dispatch\<close>

text \<open>\<^verbatim>\<open>typeof v.field === "string"\<close> for a parsed value \<open>v\<close>: only an object has members.\<close>

definition stringField :: "json \<Rightarrow> string \<Rightarrow> string option" where
  "stringField v f =
     (case v of
        JObject kvs \<Rightarrow> (case map_of kvs f of Some (JString x) \<Rightarrow> Some x | _ \<Rightarrow> None)
      | _ \<Rightarrow> None)"

definition numberField :: "json \<Rightarrow> string \<Rightarrow> int option" where
  "numberField v f =
     (case v of
        JObject kvs \<Rightarrow> (case map_of kvs f of Some (JNumber x) \<Rightarrow> Some x | _ \<Rightarrow> None)
      | _ \<Rightarrow> None)"

definition anyField :: "json \<Rightarrow> string \<Rightarrow> json option" where
  "anyField v f = (case v of JObject kvs \<Rightarrow> map_of kvs f | _ \<Rightarrow> None)"

text \<open>\<^verbatim>\<open>JSON.parse(body || "{}")\<close>: an absent and an empty body are read as \<^verbatim>\<open>{}\<close>.\<close>

definition parseBody :: "env \<Rightarrow> string option \<Rightarrow> exn + json" where
  "parseBody e b =
     (case JSON_parse e (case b of None \<Rightarrow> ''{}'' | Some t \<Rightarrow> if t = [] then ''{}'' else t) of
        None \<Rightarrow> Inl SyntaxError
      | Some v \<Rightarrow> Inr v)"

definition parseSendMessageBody :: "env \<Rightarrow> string option \<Rightarrow> exn + SendMessageBody" where
  "parseSendMessageBody e b =
     (case parseBody e b of
        Inl x \<Rightarrow> Inl x
      | Inr v \<Rightarrow>
          (case (stringField v ''message'', stringField v ''recipientNickname'') of
             (Some m, Some r) \<Rightarrow> Inr \<lparr>sm_message = m, recipientNickname = r\<rparr>
           | _ \<Rightarrow> Inl (HandleError ''Incorrect SendMessageBody format'')))"

definition parseGetMessagesBody :: "env \<Rightarrow> string option \<Rightarrow> exn + GetMessagesBody" where
  "parseGetMessagesBody e b =
     (case parseBody e b of
        Inl x \<Rightarrow> Inl x
      | Inr v \<Rightarrow>
          (case (stringField v ''targetNickname'', numberField v ''limit'') of
             (Some t, Some l) \<Rightarrow>
               Inr \<lparr>targetNickname = t, limit = l, startKey = anyField v ''startKey''\<rparr>
           | _ \<Rightarrow> Inl (HandleError ''Incorrect GetMessages format'')))"

text \<open>
  The \<^verbatim>\<open>catch\<close> of \<^verbatim>\<open>handle\<close>. It sees what the body parsers throw, since they run inside
  the \<^verbatim>\<open>try\<close>; the promise of a handler is returned without \<^verbatim>\<open>await\<close>, so its rejection
  is the rejection of \<^verbatim>\<open>handle\<close>.
\<close>

definition catchHandleError :: "env \<Rightarrow> string \<Rightarrow> exn \<Rightarrow> state \<Rightarrow> response result" where
  "catchHandleError e cid x s =
     (case x of
        HandleError msg \<Rightarrow> thenReturn (postToConnection e cid (ErrorMsg msg) s) responseOk
      | _ \<Rightarrow> (Inl x, s))"

definition handle :: "env \<Rightarrow> event \<Rightarrow> state \<Rightarrow> response result" where
  "handle e ev s =
     (let cid = ev_connectionId ev; rk = routeKey ev
      in if rk = ''$connect'' then handleConnect e cid (queryStringParameters ev) s
         else if rk = ''$disconnect'' then handleDisconnect e cid s
         else if rk = ''getClients'' then handleGetClients e cid s
         else if rk = ''sendMessage'' then
           (case parseSendMessageBody e (ev_body ev) of
              Inl x \<Rightarrow> catchHandleError e cid x s
            | Inr b \<Rightarrow> handleSendMessage e cid b s)
         else if rk = ''getMessages'' then
           (case parseGetMessagesBody e (ev_body ev) of
              Inl x \<Rightarrow> catchHandleError e cid x s
            | Inr b \<Rightarrow> handleGetMessages e cid b s)
         else (Inr \<lparr>statusCode = 500, body = ''''\<rparr>, s))"

text \<open>Events handled one at a time, each with its own environment.\<close>

fun run :: "(env \<times> event) list \<Rightarrow> state \<Rightarrow> state" where
  "run [] s = s"
| "run ((e, ev) # rest) s = run rest (snd (handle e ev s))"

section \<open>Vocabulary of the properties\<close>

text \<open>The transport reports the stale endpoint.\<close>

definition gone :: "outcome \<Rightarrow> bool" where
  "gone r = (r = Rejected (Some 410))"

text \<open>The transport fails in any other way.\<close>

definition failed :: "outcome \<Rightarrow> bool" where
  "failed r = (case r of Accepted \<Rightarrow> False | Rejected code \<Rightarrow> code \<noteq> Some 410)"

text \<open>No two rows of the registry carry the same nickname.\<close>

definition uniqueNicknames :: "client list \<Rightarrow> bool" where
  "uniqueNicknames cs = distinct (map nickname cs)"

text \<open>The transport layer hands out identifiers that are not empty.\<close>

definition properIds :: "client list \<Rightarrow> bool" where
  "properIds cs = list_all (\<lambda>c. connectionId c \<noteq> []) cs"

text \<open>The invariant of the registry, on its present and on all its logged contents.\<close>

definition registryInv :: "state \<Rightarrow> bool" where
  "registryInv s =
     (uniqueNicknames (clients s) \<and> properIds (clients s)
      \<and> list_all uniqueNicknames (registryLog s))"

text \<open>
  Some push of the roster broadcast that \<^verbatim>\<open>notifyClients\<close> starts from the registry
  \<open>cs\<close> fails with a status other than 410.
\<close>

definition rosterFails :: "env \<Rightarrow> string \<Rightarrow> client list \<Rightarrow> bool" where
  "rosterFails e cid cs =
     list_ex (\<lambda>c. failed (transport e (connectionId c) (ClientsMsg cs)))
       (filter (\<lambda>c. connectionId c \<noteq> cid) cs)"

text \<open>The message of the \<^verbatim>\<open>HandleError\<close> that the body parser of a route throws.\<close>

definition formatError :: "string \<Rightarrow> string" where
  "formatError rk =
     (if rk = ''sendMessage'' then ''Incorrect SendMessageBody format''
      else ''Incorrect GetMessages format'')"

section \<open>Example data\<close>

definition alice :: client where
  "alice = \<lparr>connectionId = ''c1'', nickname = ''alice''\<rparr>"

definition bob :: client where
  "bob = \<lparr>connectionId = ''c2'', nickname = ''bob''\<rparr>"

definition emptyState :: state where
  "emptyState = \<lparr>clients = [], messages = [], posted = [], registryLog = []\<rparr>"

definition aliceAndBob :: state where
  "aliceAndBob = \<lparr>clients = [alice, bob], messages = [], posted = [], registryLog = []\<rparr>"

text \<open>The message that alice sends to bob in the examples, and the same to carol.\<close>

definition hi :: message where
  "hi = \<lparr>messageId = ''m1'', createdAt = 1000, nicknameToNickname = ''alice#bob'',
         message_text = ''hi'', sender = ''alice''\<rparr>"

definition hiCarol :: message where
  "hiCarol = \<lparr>messageId = ''m1'', createdAt = 1000, nicknameToNickname = ''alice#carol'',
         message_text = ''hi'', sender = ''alice''\<rparr>"

text \<open>The state after alice has sent \<open>hi\<close> to bob over an accepting transport.\<close>

definition afterHi :: state where
  "afterHi = \<lparr>clients = [alice, bob], messages = [hi], posted = [(''c2'', MessageMsg hi)],
               registryLog = []\<rparr>"

text \<open>Request bodies: two messages and one history query.\<close>

definition hiToBob :: string where
  \<open>hiToBob = ''{"message":"hi","recipientNickname":"bob"}''\<close>

definition hiToCarol :: string where
  \<open>hiToCarol = ''{"message":"hi","recipientNickname":"carol"}''\<close>

definition historyWithAlice :: string where
  \<open>historyWithAlice = ''{"targetNickname":"alice","limit":10}''\<close>

text \<open>
  The values of \<^verbatim>\<open>JSON.parse\<close> at the request bodies of the examples. The only other
  text the examples use is \<^verbatim>\<open>{\<close>, which is no JSON text.
\<close>

definition exampleParse :: "string \<Rightarrow> json option" where
  "exampleParse t =
     (if t = ''{}'' then Some (JObject [])
      else if t = hiToBob
        then Some (JObject [(''message'', JString ''hi''),
                            (''recipientNickname'', JString ''bob'')])
      else if t = hiToCarol
        then Some (JObject [(''message'', JString ''hi''),
                            (''recipientNickname'', JString ''carol'')])
      else if t = historyWithAlice
        then Some (JObject [(''targetNickname'', JString ''alice''), (''limit'', JNumber 10)])
      else None)"

text \<open>An environment with a given transport; the examples pass no start key.\<close>

definition exampleEnv :: "(string \<Rightarrow> payload \<Rightarrow> outcome) \<Rightarrow> env" where
  "exampleEnv t =
     \<lparr>transport = t, JSON_parse = exampleParse, v4 = ''m1'', getTime = 1000,
      exclusiveStart = (\<lambda>k ms. ms)\<rparr>"

text \<open>A transport that accepts every call.\<close>

definition accepting :: "string \<Rightarrow> payload \<Rightarrow> outcome" where
  "accepting = (\<lambda>c d. Accepted)"

text \<open>A transport that answers \<open>r\<close> for the connection \<open>cid\<close> and accepts the others.\<close>

definition answering :: "string \<Rightarrow> outcome \<Rightarrow> string \<Rightarrow> payload \<Rightarrow> outcome" where
  "answering cid r = (\<lambda>c d. if c = cid then r else Accepted)"

definition connectEvent :: "string \<Rightarrow> string \<Rightarrow> event" where
  "connectEvent cid n =
     \<lparr>ev_connectionId = cid, routeKey = ''$connect'',
      queryStringParameters = Some [''nickname'' \<mapsto> n], ev_body = None\<rparr>"

definition disconnectEvent :: "string \<Rightarrow> event" where
  "disconnectEvent cid =
     \<lparr>ev_connectionId = cid, routeKey = ''$disconnect'',
      queryStringParameters = None, ev_body = None\<rparr>"

definition bodyEvent :: "string \<Rightarrow> string \<Rightarrow> string option \<Rightarrow> event" where
  "bodyEvent cid rk b =
     \<lparr>ev_connectionId = cid, routeKey = rk, queryStringParameters = None, ev_body = b\<rparr>"

text \<open>
  Alice connects on \<^verbatim>\<open>c1\<close>, loses the connection without a close frame, and connects
  again on \<^verbatim>\<open>c2\<close>; the disconnect of \<^verbatim>\<open>c1\<close> arrives afterwards.
\<close>

definition reconnect :: "(env \<times> event) list" where
  "reconnect =
     [(exampleEnv accepting, connectEvent ''c1'' ''alice''),
      (exampleEnv (answering ''c1'' (Rejected (Some 410))), connectEvent ''c2'' ''alice''),
      (exampleEnv accepting, disconnectEvent ''c1'')]"

section \<open>Effects of a push\<close>

lemma postToConnection_messages [simp]:
  "messages (snd (postToConnection e cid d s)) = messages s"
  by (simp add: postToConnection_def deleteClient_def Let_def split: outcome.splits)

lemma postToConnection_posted [simp]:
  "posted (snd (postToConnection e cid d s)) = posted s @ [(cid, d)]"
  by (simp add: postToConnection_def deleteClient_def Let_def split: outcome.splits)

lemma postToConnection_clients:
  "clients (snd (postToConnection e cid d s)) =
     (if gone (transport e cid d)
      then filter (\<lambda>c. connectionId c \<noteq> cid) (clients s) else clients s)"
  by (simp add: postToConnection_def deleteClient_def gone_def Let_def split: outcome.splits)

lemma postToConnection_result:
  "fst (postToConnection e cid d s) =
     (case transport e cid d of
        Accepted \<Rightarrow> Inr True
      | Rejected code \<Rightarrow> if code = Some 410 then Inr False else Inl (AWSError code))"
  by (simp add: postToConnection_def Let_def split: outcome.splits)

subsection \<open>The fan-out\<close>

lemma thenReturn_snd [simp]: "snd (thenReturn p v) = snd p"
  by (simp add: thenReturn_def)

lemma thenReturn_fst:
  "fst (thenReturn p v) = (case fst p of Inl x \<Rightarrow> Inl x | Inr _ \<Rightarrow> Inr v)"
  by (simp add: thenReturn_def)

lemma postAll_Cons_snd:
  "snd (postAll e d (c # cs) s) =
     snd (postAll e d cs (snd (postToConnection e (connectionId c) d s)))"
  by (simp add: Let_def)

lemma postAll_Cons_fst:
  "fst (postAll e d (c # cs) s) =
     (case fst (postToConnection e (connectionId c) d s) of
        Inl x \<Rightarrow> Inl x
      | Inr _ \<Rightarrow> fst (postAll e d cs (snd (postToConnection e (connectionId c) d s))))"
  by (simp add: Let_def)

lemma postAll_messages [simp]:
  "messages (snd (postAll e d cs s)) = messages s"
  by (induction cs arbitrary: s) (simp_all add: postAll_Cons_snd del: postAll.simps(2))

lemma postAll_posted:
  "posted (snd (postAll e d cs s)) = posted s @ map (\<lambda>c. (connectionId c, d)) cs"
  by (induction cs arbitrary: s) (simp_all add: postAll_Cons_snd del: postAll.simps(2))

lemma postAll_clients:
  "clients (snd (postAll e d cs s)) =
     filter (\<lambda>c. connectionId c \<in> connectionId ` set cs \<longrightarrow>
                  \<not> gone (transport e (connectionId c) d)) (clients s)"
proof (induction cs arbitrary: s)
  case Nil
  show ?case by simp
next
  case (Cons t ts)
  show ?case
    unfolding postAll_Cons_snd Cons.IH postToConnection_clients
    by (auto intro: filter_cong)
qed

lemma postAll_result:
  "fst (postAll e d cs s) =
     (case find (\<lambda>c. failed (transport e (connectionId c) d)) cs of
        None \<Rightarrow> Inr ()
      | Some c \<Rightarrow>
          (case transport e (connectionId c) d of
             Rejected code \<Rightarrow> Inl (AWSError code)
           | Accepted \<Rightarrow> Inr ()))"
proof (induction cs arbitrary: s)
  case Nil
  show ?case by simp
next
  case (Cons t ts)
  show ?case
    unfolding postAll_Cons_fst Cons.IH postToConnection_result
    by (auto simp: failed_def split: outcome.splits)
qed

section \<open>The registry invariant is kept by every handler\<close>

lemma uniqueNicknames_filter: "uniqueNicknames cs \<Longrightarrow> uniqueNicknames (filter P cs)"
  by (simp add: uniqueNicknames_def distinct_map_filter)

lemma properIds_filter: "properIds cs \<Longrightarrow> properIds (filter P cs)"
  by (simp add: properIds_def list_all_iff)

lemma deleteClient_inv: "registryInv s \<Longrightarrow> registryInv (deleteClient cid s)"
  by (simp add: registryInv_def deleteClient_def Let_def uniqueNicknames_filter properIds_filter)

lemma registryInv_posted [simp]: "registryInv (s\<lparr>posted := p\<rparr>) = registryInv s"
  by (simp add: registryInv_def)

lemma registryInv_messages [simp]: "registryInv (s\<lparr>messages := p\<rparr>) = registryInv s"
  by (simp add: registryInv_def)

lemma postToConnection_inv:
  "registryInv s \<Longrightarrow> registryInv (snd (postToConnection e cid d s))"
  by (simp add: postToConnection_def Let_def deleteClient_inv split: outcome.splits)

lemma postAll_inv: "registryInv s \<Longrightarrow> registryInv (snd (postAll e d cs s))"
  by (induction cs arbitrary: s)
     (simp_all add: postAll_Cons_snd postToConnection_inv del: postAll.simps(2))

lemma notifyClients_inv: "registryInv s \<Longrightarrow> registryInv (snd (notifyClients e x s))"
  by (simp add: notifyClients_def Let_def postAll_inv)

lemma nickname_lookup_None:
  "getConnectionIdByNickname n s = None \<longleftrightarrow> n \<notin> nickname ` set (clients s)"
proof -
  have "filter (\<lambda>c. nickname c = n) (clients s) = [] \<longleftrightarrow> n \<notin> nickname ` set (clients s)"
    by (auto simp: filter_empty_conv)
  then show ?thesis
    by (cases "filter (\<lambda>c. nickname c = n) (clients s)")
       (simp_all add: getConnectionIdByNickname_def)
qed

lemma nickname_lookup_Some:
  assumes "getConnectionIdByNickname n s = Some x"
  shows "\<exists>c \<in> set (clients s). nickname c = n \<and> connectionId c = x"
proof -
  from assms obtain c cs where eq: "filter (\<lambda>c. nickname c = n) (clients s) = c # cs"
    and x: "connectionId c = x"
    by (auto simp: getConnectionIdByNickname_def split: list.splits)
  have "c \<in> set (filter (\<lambda>c. nickname c = n) (clients s))"
    unfolding eq by simp
  then show ?thesis using x by auto
qed

lemma putClient_inv:
  assumes "registryInv s" "cid \<noteq> []" "getConnectionIdByNickname n s = None"
  shows "registryInv (putClient \<lparr>connectionId = cid, nickname = n\<rparr> s)"
proof -
  let ?cs = "filter (\<lambda>c. connectionId c \<noteq> cid) (clients s)"
  have "n \<notin> nickname ` set ?cs"
    using assms(3) by (auto simp: nickname_lookup_None)
  moreover have "uniqueNicknames ?cs" "properIds ?cs"
    using assms(1) by (simp_all add: registryInv_def uniqueNicknames_filter properIds_filter)
  ultimately have "uniqueNicknames (?cs @ [\<lparr>connectionId = cid, nickname = n\<rparr>])"
    "properIds (?cs @ [\<lparr>connectionId = cid, nickname = n\<rparr>])"
    using assms(2) by (auto simp: uniqueNicknames_def properIds_def)
  then show ?thesis
    using assms(1) by (simp add: registryInv_def putClient_def Let_def)
qed

lemma claimNickname_inv:
  assumes "registryInv s" "cid \<noteq> []" "getConnectionIdByNickname n s = None"
  shows "registryInv (snd (claimNickname e cid n s))"
  unfolding claimNickname_def thenReturn_snd by (intro notifyClients_inv putClient_inv assms)

lemma evicted_nickname_free:
  assumes "uniqueNicknames (clients s)" "getConnectionIdByNickname n s = Some x"
  shows "n \<notin> nickname ` set (filter (\<lambda>c. connectionId c \<noteq> x) (clients s))"
proof
  assume "n \<in> nickname ` set (filter (\<lambda>c. connectionId c \<noteq> x) (clients s))"
  then obtain c where c: "c \<in> set (clients s)" "connectionId c \<noteq> x" "nickname c = n"
    by auto
  from nickname_lookup_Some[OF assms(2)]
  obtain c0 where c0: "c0 \<in> set (clients s)" "nickname c0 = n" "connectionId c0 = x"
    by auto
  have "inj_on nickname (set (clients s))"
    using assms(1) by (simp add: uniqueNicknames_def distinct_map)
  then have "c = c0"
    using c c0 by (auto dest: inj_onD)
  then show False using c c0 by simp
qed

lemma handleConnect_inv:
  assumes "registryInv s" "cid \<noteq> []"
  shows "registryInv (snd (handleConnect e cid q s))"
proof (cases q)
  case None
  then show ?thesis using assms by (simp add: handleConnect_def)
next
  case (Some m)
  show ?thesis
  proof (cases "m ''nickname''")
    case None
    then show ?thesis using assms Some by (simp add: handleConnect_def)
  next
    case n: (Some n)
    show ?thesis
    proof (cases "getConnectionIdByNickname n s")
      case None
      then show ?thesis
        using assms Some n by (simp add: handleConnect_def claimNickname_inv)
    next
      case x: (Some x)
      let ?p = "postToConnection e x Ping s"
      have inv1: "registryInv (snd ?p)" by (rule postToConnection_inv[OF assms(1)])
      have free: "getConnectionIdByNickname n (snd ?p) = None" if "fst ?p = Inr False"
      proof -
        from that have g: "gone (transport e x Ping)"
          by (auto simp: postToConnection_result gone_def split: outcome.splits if_splits)
        have "uniqueNicknames (clients s)" using assms(1) by (simp add: registryInv_def)
        from evicted_nickname_free[OF this x] show ?thesis
          using g by (simp add: nickname_lookup_None postToConnection_clients)
      qed
      have ne: "x \<noteq> []"
        using nickname_lookup_Some[OF x] assms(1)
        by (auto simp: registryInv_def properIds_def list_all_iff)
      show ?thesis
        using Some n x ne inv1 free assms
        by (auto simp: handleConnect_def Let_def claimNickname_inv split: sum.splits bool.splits)
    qed
  qed
qed

lemma handleDisconnect_inv: "registryInv s \<Longrightarrow> registryInv (snd (handleDisconnect e cid s))"
  by (simp add: handleDisconnect_def notifyClients_inv deleteClient_inv)

lemma handleGetClients_inv: "registryInv s \<Longrightarrow> registryInv (snd (handleGetClients e cid s))"
  by (simp add: handleGetClients_def postToConnection_inv)

lemma putMessage_inv [simp]: "registryInv (putMessage m s) = registryInv s"
  by (simp add: putMessage_def)

lemma handleSendMessage_inv: "registryInv s \<Longrightarrow> registryInv (snd (handleSendMessage e cid b s))"
  by (simp add: handleSendMessage_def Let_def postToConnection_inv split: option.splits)

lemma handleGetMessages_inv: "registryInv s \<Longrightarrow> registryInv (snd (handleGetMessages e cid b s))"
  by (simp add: handleGetMessages_def postToConnection_inv split: option.splits sum.splits)

lemma catchHandleError_inv: "registryInv s \<Longrightarrow> registryInv (snd (catchHandleError e cid x s))"
  by (simp add: catchHandleError_def postToConnection_inv split: exn.splits)

lemma handle_inv:
  assumes "registryInv s" "ev_connectionId ev \<noteq> []"
  shows "registryInv (snd (handle e ev s))"
  using assms
  by (simp add: handle_def Let_def handleConnect_inv handleDisconnect_inv handleGetClients_inv
      handleSendMessage_inv handleGetMessages_inv catchHandleError_inv split: sum.splits)

lemma run_inv:
  assumes "registryInv s" "list_all (\<lambda>(e, ev). ev_connectionId ev \<noteq> []) evs"
  shows "registryInv (run evs s)"
  using assms
proof (induction evs arbitrary: s)
  case Nil
  then show ?case by simp
next
  case (Cons x xs)
  obtain e ev where x: "x = (e, ev)" by (cases x)
  show ?case
    using Cons.prems unfolding x
    by (simp add: Cons.IH handle_inv)
qed

section \<open>Unfolding the model and the examples\<close>

lemmas example_defs = alice_def bob_def emptyState_def aliceAndBob_def exampleParse_def
  hiToBob_def hiToCarol_def historyWithAlice_def hi_def hiCarol_def afterHi_def
  exampleEnv_def accepting_def answering_def connectEvent_def disconnectEvent_def bodyEvent_def

lemmas model_defs = handle_def handleConnect_def handleDisconnect_def handleGetClients_def
  handleSendMessage_def handleGetMessages_def catchHandleError_def parseSendMessageBody_def
  parseGetMessagesBody_def parseBody_def stringField_def numberField_def anyField_def
  claimNickname_def notifyClients_def getAllClients_def createClientsMessage_def
  postToConnection_def putClient_def deleteClient_def putMessage_def getClient_def
  getConnectionIdByNickname_def buildMessage_def getNicknameToNickname_def queryMessages_def
  newestFirst_def thenReturn_def responseOk_def responseForbidden_def Let_def

lemmas property_defs = gone_def failed_def uniqueNicknames_def properIds_def registryInv_def
  rosterFails_def formatError_def

section \<open>Dispatch\<close>

lemma catchHandleError_HandleError:
  "catchHandleError e cid (HandleError msg) s =
     thenReturn (postToConnection e cid (ErrorMsg msg) s) responseOk"
  by (simp add: catchHandleError_def)

lemma handle_caught:
  assumes "routeKey ev = ''sendMessage'' \<and> parseSendMessageBody e (ev_body ev) = Inl x
         \<or> routeKey ev = ''getMessages'' \<and> parseGetMessagesBody e (ev_body ev) = Inl x"
  shows "handle e ev s = catchHandleError e (ev_connectionId ev) x s"
  using assms by (auto simp: handle_def Let_def)

lemma handle_sendMessage:
  assumes "routeKey ev = ''sendMessage''" "parseSendMessageBody e (ev_body ev) = Inr b"
  shows "handle e ev s = handleSendMessage e (ev_connectionId ev) b s"
  using assms by (simp add: handle_def Let_def)

section \<open>Effects of a claim\<close>

lemma putClient_clients:
  "clients (putClient item s) =
     filter (\<lambda>c. connectionId c \<noteq> connectionId item) (clients s) @ [item]"
  by (simp add: putClient_def Let_def)

lemma notifyClients_clients:
  "clients (snd (notifyClients e x s)) =
     filter (\<lambda>c. connectionId c = x \<or> \<not> gone (transport e (connectionId c) (ClientsMsg (clients s))))
       (clients s)"
  unfolding notifyClients_def Let_def getAllClients_def createClientsMessage_def postAll_clients
  by (rule filter_cong) auto

lemma find_SomeD: "find P xs = Some c \<Longrightarrow> P c \<and> c \<in> set xs"
  by (induction xs) (auto split: if_splits)

lemma notifyClients_result:
  "fst (notifyClients e x s) = Inr () \<longleftrightarrow> \<not> rosterFails e x (clients s)"
proof -
  let ?P = "\<lambda>c. failed (transport e (connectionId c) (ClientsMsg (clients s)))"
  let ?ts = "filter (\<lambda>c. connectionId c \<noteq> x) (clients s)"
  show ?thesis
  proof (cases "find ?P ?ts")
    case None
    then have "\<not> list_ex ?P ?ts"
      by (simp add: find_None_iff list_ex_iff)
    then show ?thesis
      using None
      by (simp add: notifyClients_def Let_def getAllClients_def createClientsMessage_def
          postAll_result rosterFails_def)
  next
    case (Some c)
    then have c: "?P c" "c \<in> set ?ts"
      by (auto dest: find_SomeD)
    then have "list_ex ?P ?ts"
      unfolding list_ex_iff by blast
    then show ?thesis
      using Some c(1)
      by (auto simp: notifyClients_def Let_def getAllClients_def createClientsMessage_def
          postAll_result rosterFails_def failed_def split: outcome.splits)
  qed
qed

lemma claimNickname_inserts:
  "\<lparr>connectionId = cid, nickname = n\<rparr> \<in> set (clients (snd (claimNickname e cid n s)))"
  by (simp add: claimNickname_def notifyClients_clients putClient_clients)

lemma claimNickname_result:
  "fst (claimNickname e cid n s) =
     (if rosterFails e cid (clients (putClient \<lparr>connectionId = cid, nickname = n\<rparr> s))
      then fst (claimNickname e cid n s) else Inr responseOk)"
  "rosterFails e cid (clients (putClient \<lparr>connectionId = cid, nickname = n\<rparr> s))
     \<Longrightarrow> isl (fst (claimNickname e cid n s))"
  using notifyClients_result[of e cid "putClient \<lparr>connectionId = cid, nickname = n\<rparr> s"]
  by (auto simp: claimNickname_def thenReturn_fst split: sum.splits)

lemma claimNickname_absent:
  assumes "getClient x s = None" "x \<noteq> cid"
  shows "getClient x (snd (claimNickname e cid n s)) = None"
  using assms
  by (auto simp: claimNickname_def notifyClients_clients putClient_clients getClient_def
      find_None_iff)

section \<open>Effects of a send and of a history query\<close>

lemma putMessage_stores: "m \<in> set (messages (putMessage m s))"
  by (simp add: putMessage_def)

lemma putMessage_frame [simp]:
  "clients (putMessage m s) = clients s" "posted (putMessage m s) = posted s"
  "getConnectionIdByNickname n (putMessage m s) = getConnectionIdByNickname n s"
  "getClient c (putMessage m s) = getClient c s"
  by (simp_all add: putMessage_def getConnectionIdByNickname_def getClient_def)

lemma handleSendMessage_registered:
  assumes "getClient cid s = Some c"
  shows "handleSendMessage e cid b s =
     (case getConnectionIdByNickname (recipientNickname b) s of
        None \<Rightarrow> (Inr responseOk, putMessage (buildMessage e c b) s)
      | Some x \<Rightarrow>
          if x = [] then (Inr responseOk, putMessage (buildMessage e c b) s)
          else thenReturn (postToConnection e x (MessageMsg (buildMessage e c b))
                 (putMessage (buildMessage e c b) s)) responseOk)"
  using assms by (simp add: handleSendMessage_def Let_def)

lemma handleSendMessage_messages:
  assumes "getClient cid s = Some c"
  shows "messages (snd (handleSendMessage e cid b s)) = messages (putMessage (buildMessage e c b) s)"
  unfolding handleSendMessage_registered[OF assms] by (simp split: option.splits)

lemma key_sym: "getNicknameToNickname [a, b] = getNicknameToNickname [b, a]"
  by (auto simp: getNicknameToNickname_def)

lemma key_sorted_joined:
  "getNicknameToNickname [x, y] = (if x \<le> y then x @ ''#'' @ y else y @ ''#'' @ x)"
  by (auto simp: getNicknameToNickname_def)

lemma queryMessages_all:
  assumes "m \<in> set (messages s)" "nicknameToNickname m = k"
    and "int (length (filter (\<lambda>m. nicknameToNickname m = k) (messages s))) \<le> lim"
  shows "queryMessages e k lim None s
           = Inr (newestFirst (filter (\<lambda>m. nicknameToNickname m = k) (messages s)))"
proof -
  let ?f = "filter (\<lambda>m. nicknameToNickname m = k) (messages s)"
  have "m \<in> set ?f" using assms(1,2) by simp
  then have "0 < length ?f" by (cases ?f) auto
  then have "1 \<le> lim" using assms(3) by linarith
  moreover have "length (newestFirst ?f) \<le> nat lim"
    using assms(3) by (simp add: newestFirst_def)
  ultimately show ?thesis
    by (simp add: queryMessages_def Let_def)
qed

lemma handleGetMessages_posted:
  assumes "getClient cid s = Some c"
    and "queryMessages e (getNicknameToNickname [nickname c, targetNickname b]) (limit b) (startKey b) s
           = Inr ms"
  shows "posted (snd (handleGetMessages e cid b s)) = posted s @ [(cid, MessagesMsg ms)]"
  using assms by (simp add: handleGetMessages_def)

section \<open>Claims about the delivery gateway\<close>

text \<open>
  Claim C2. If the transport rejects a push to a connection with status 410,
  \<^verbatim>\<open>postToConnection\<close> returns \<open>False\<close> and has deleted the row of that connection, so
  that a lookup of the connection finds nothing; on a registry that holds no nickname
  twice, a lookup of the nickname that the deleted row carried finds nothing either. If
  the transport rejects with any other status (or with none), the error is thrown to the
  caller and the registry is as it was.
\<close>

theorem postToConnection_contract:
  "(gone (transport e cid d) \<longrightarrow>
      fst (postToConnection e cid d s) = Inr False
    \<and> clients (snd (postToConnection e cid d s)) =
        filter (\<lambda>c. connectionId c \<noteq> cid) (clients s)
    \<and> getClient cid (snd (postToConnection e cid d s)) = None
    \<and> (uniqueNicknames (clients s) \<longrightarrow>
         (\<forall>c \<in> set (clients s). connectionId c = cid \<longrightarrow>
            getConnectionIdByNickname (nickname c) (snd (postToConnection e cid d s)) = None)))
   \<and> (\<forall>code. transport e cid d = Rejected code \<and> code \<noteq> Some 410 \<longrightarrow>
         fst (postToConnection e cid d s) = Inl (AWSError code)
       \<and> clients (snd (postToConnection e cid d s)) = clients s)"
proof -
  have nick: "getConnectionIdByNickname (nickname c) (snd (postToConnection e cid d s)) = None"
    if g: "gone (transport e cid d)" and u: "uniqueNicknames (clients s)"
      and c: "c \<in> set (clients s)" "connectionId c = cid" for c
  proof -
    have "inj_on nickname (set (clients s))"
      using u by (simp add: uniqueNicknames_def distinct_map)
    then have "\<And>x. x \<in> set (clients s) \<Longrightarrow> nickname x = nickname c \<Longrightarrow> x = c"
      using c(1) by (auto dest: inj_onD)
    then have "nickname c \<notin> nickname ` set (filter (\<lambda>x. connectionId x \<noteq> cid) (clients s))"
      using c(2) by auto
    then show ?thesis
      using g by (simp add: nickname_lookup_None postToConnection_clients)
  qed
  have gc: "getClient cid (snd (postToConnection e cid d s)) = None" if "gone (transport e cid d)"
    using that by (simp add: getClient_def postToConnection_clients find_None_iff)
  show ?thesis
    using nick gc
    by (auto simp: postToConnection_result postToConnection_clients gone_def)
qed

text \<open>
  The theorem at the registry of alice and bob: a push to alice that meets status 410
  removes her row and frees her nickname; a push that meets status 500 is thrown on.
\<close>

theorem postToConnection_contract_witness:
  "uniqueNicknames (clients aliceAndBob)
   \<and> gone (transport (exampleEnv (answering ''c1'' (Rejected (Some 410)))) ''c1'' Ping)
   \<and> alice \<in> set (clients aliceAndBob) \<and> connectionId alice = ''c1''
   \<and> fst (postToConnection (exampleEnv (answering ''c1'' (Rejected (Some 410)))) ''c1'' Ping aliceAndBob)
       = Inr False
   \<and> clients (snd (postToConnection (exampleEnv (answering ''c1'' (Rejected (Some 410)))) ''c1'' Ping
         aliceAndBob)) = [bob]
   \<and> getConnectionIdByNickname (nickname alice)
       (snd (postToConnection (exampleEnv (answering ''c1'' (Rejected (Some 410)))) ''c1'' Ping
         aliceAndBob)) = None
   \<and> transport (exampleEnv (answering ''c1'' (Rejected (Some 500)))) ''c1'' Ping = Rejected (Some 500)
   \<and> fst (postToConnection (exampleEnv (answering ''c1'' (Rejected (Some 500)))) ''c1'' Ping aliceAndBob)
       = Inl (AWSError (Some 500))
   \<and> clients (snd (postToConnection (exampleEnv (answering ''c1'' (Rejected (Some 500)))) ''c1'' Ping
         aliceAndBob)) = clients aliceAndBob"
proof -
  have u: "uniqueNicknames (clients aliceAndBob)"
    by (simp add: property_defs example_defs)
  have g: "gone (transport (exampleEnv (answering ''c1'' (Rejected (Some 410)))) ''c1'' Ping)"
    by (simp add: property_defs example_defs)
  have f: "transport (exampleEnv (answering ''c1'' (Rejected (Some 500)))) ''c1'' Ping
             = Rejected (Some 500)"
    by (simp add: example_defs)
  have a: "alice \<in> set (clients aliceAndBob)" "connectionId alice = ''c1''"
    by (simp_all add: example_defs)
  have rest: "filter (\<lambda>c. connectionId c \<noteq> ''c1'') (clients aliceAndBob) = [bob]"
    by (simp add: example_defs)
  show ?thesis
    using postToConnection_contract[of "exampleEnv (answering ''c1'' (Rejected (Some 410)))"
        "''c1''" Ping aliceAndBob]
      postToConnection_contract[of "exampleEnv (answering ''c1'' (Rejected (Some 500)))"
        "''c1''" Ping aliceAndBob]
      u g f a rest
    by auto
qed

section \<open>Claims about presence\<close>

text \<open>
  Claim C3. Start from a registry that holds no nickname twice and no empty connection
  identifier (the empty registry is one), and handle any events one after the other, each
  coming from a connection with a non-empty identifier; the events may be connects,
  disconnects or any other route. After every prefix of the sequence no two rows of the
  registry carry the same nickname, and the same holds for every content the registry
  had after any single write on the way.
\<close>

theorem nickname_unique_along_run:
  assumes "registryInv s"
    and "list_all (\<lambda>(e, ev). ev_connectionId ev \<noteq> []) evs"
  shows "uniqueNicknames (clients (run (take k evs) s))
       \<and> list_all uniqueNicknames (registryLog (run (take k evs) s))"
proof -
  have "list_all (\<lambda>(e, ev). ev_connectionId ev \<noteq> []) (take k evs)"
    using assms(2) by (auto simp: list_all_iff dest: in_set_takeD)
  from run_inv[OF assms(1) this] show ?thesis
    by (simp add: registryInv_def)
qed

text \<open>
  The theorem at the run in which alice reconnects: after the second event the only row
  is the new one.
\<close>

theorem nickname_unique_along_run_witness:
  "registryInv emptyState
   \<and> list_all (\<lambda>(e, ev). ev_connectionId ev \<noteq> []) reconnect
   \<and> uniqueNicknames (clients (run (take 2 reconnect) emptyState))
   \<and> list_all uniqueNicknames (registryLog (run (take 2 reconnect) emptyState))
   \<and> clients (run (take 2 reconnect) emptyState) = [\<lparr>connectionId = ''c2'', nickname = ''alice''\<rparr>]"
proof -
  have i: "registryInv emptyState"
    by (simp add: property_defs example_defs)
  have l: "list_all (\<lambda>(e, ev). ev_connectionId ev \<noteq> []) reconnect"
    by (simp add: reconnect_def example_defs)
  have c: "clients (run (take 2 reconnect) emptyState)
       = [\<lparr>connectionId = ''c2'', nickname = ''alice''\<rparr>]"
    by (simp add: reconnect_def model_defs example_defs numeral_2_eq_2)
  show ?thesis
    using nickname_unique_along_run[OF i l, of 2] i l c by simp
qed

text \<open>
  Claim C9. The delete of \<^verbatim>\<open>handleDisconnect\<close> removes the rows keyed by the connection
  \<open>X\<close> and no other row, and leaves the messages and the transport alone. The handler
  as a whole leaves the messages alone and issues one push for each remaining row, in
  the order of the scan, each carrying the list of the remaining rows; none goes to
  \<open>X\<close>. At the end the registry holds the remaining rows except those whose push met
  status 410.
\<close>

theorem handleDisconnect_effects:
  "clients (deleteClient X s) = filter (\<lambda>c. connectionId c \<noteq> X) (clients s)
   \<and> messages (deleteClient X s) = messages s
   \<and> posted (deleteClient X s) = posted s
   \<and> messages (snd (handleDisconnect e X s)) = messages s
   \<and> posted (snd (handleDisconnect e X s)) =
       posted s @ map (\<lambda>c. (connectionId c, ClientsMsg (filter (\<lambda>c. connectionId c \<noteq> X) (clients s))))
                    (filter (\<lambda>c. connectionId c \<noteq> X) (clients s))
   \<and> clients (snd (handleDisconnect e X s)) =
       filter (\<lambda>c. \<not> gone (transport e (connectionId c)
                              (ClientsMsg (filter (\<lambda>c. connectionId c \<noteq> X) (clients s)))))
         (filter (\<lambda>c. connectionId c \<noteq> X) (clients s))"
proof -
  let ?rem = "filter (\<lambda>c. connectionId c \<noteq> X) (clients s)"
  have del: "clients (deleteClient X s) = ?rem" "messages (deleteClient X s) = messages s"
    "posted (deleteClient X s) = posted s"
    by (simp_all add: deleteClient_def Let_def)
  have snd_eq: "snd (handleDisconnect e X s) = snd (postAll e (ClientsMsg ?rem) ?rem (deleteClient X s))"
    by (simp add: handleDisconnect_def notifyClients_def getAllClients_def createClientsMessage_def
        del Let_def)
  have cl: "clients (snd (handleDisconnect e X s)) =
      filter (\<lambda>c. \<not> gone (transport e (connectionId c) (ClientsMsg ?rem))) ?rem"
    unfolding snd_eq postAll_clients del by (rule filter_cong) auto
  show ?thesis
    using del cl by (simp add: snd_eq postAll_posted)
qed

text \<open>
  Claim C1, as stated, fails: carol connects with a free nickname while the transport
  answers status 500 to the roster push for bob. Her record is inserted, and the handler
  does not return success: the error of the push is thrown.
\<close>

theorem connect_success_counterexample:
  "getConnectionIdByNickname ''carol'' aliceAndBob = None
   \<and> fst (handleConnect (exampleEnv (answering ''c2'' (Rejected (Some 500)))) ''c3''
            (Some [''nickname'' \<mapsto> ''carol'']) aliceAndBob) = Inl (AWSError (Some 500))
   \<and> \<lparr>connectionId = ''c3'', nickname = ''carol''\<rparr>
       \<in> set (clients (snd (handleConnect (exampleEnv (answering ''c2'' (Rejected (Some 500)))) ''c3''
            (Some [''nickname'' \<mapsto> ''carol'']) aliceAndBob)))"
  by (simp add: model_defs example_defs)

text \<open>
  Claim C1, amended. Take a connect request with a non-empty nickname \<open>n\<close> from the
  connection \<open>cid\<close>, on a registry without empty connection identifiers. If no row
  carries \<open>n\<close>, the row of \<open>cid\<close> and \<open>n\<close> is in the registry afterwards, and the result
  is the success response unless a push of the roster broadcast fails with a status
  other than 410, in which case the handler throws. If the first row that carries \<open>n\<close>
  belongs to the connection \<open>x\<close> and the ping to \<open>x\<close> meets status 410, no row of \<open>x\<close>
  remains (for \<open>x\<close> other than \<open>cid\<close>), the new row is in the registry, and the result
  is as in the first case. If the ping is accepted, the result is the forbidden response
  and the registry and the messages are as they were.
\<close>

theorem handleConnect_cases:
  assumes "q ''nickname'' = Some n" and "n \<noteq> []" and "properIds (clients s)"
  shows "(getConnectionIdByNickname n s = None \<longrightarrow>
            \<lparr>connectionId = cid, nickname = n\<rparr> \<in> set (clients (snd (handleConnect e cid (Some q) s)))
          \<and> (\<not> rosterFails e cid (clients (putClient \<lparr>connectionId = cid, nickname = n\<rparr> s)) \<longrightarrow>
               fst (handleConnect e cid (Some q) s) = Inr responseOk)
          \<and> (rosterFails e cid (clients (putClient \<lparr>connectionId = cid, nickname = n\<rparr> s)) \<longrightarrow>
               isl (fst (handleConnect e cid (Some q) s))))
       \<and> (\<forall>x. getConnectionIdByNickname n s = Some x \<and> gone (transport e x Ping) \<longrightarrow>
            (x \<noteq> cid \<longrightarrow> getClient x (snd (handleConnect e cid (Some q) s)) = None)
          \<and> \<lparr>connectionId = cid, nickname = n\<rparr> \<in> set (clients (snd (handleConnect e cid (Some q) s)))
          \<and> (\<not> rosterFails e cid
                  (clients (putClient \<lparr>connectionId = cid, nickname = n\<rparr> (deleteClient x s))) \<longrightarrow>
               fst (handleConnect e cid (Some q) s) = Inr responseOk)
          \<and> (rosterFails e cid
                  (clients (putClient \<lparr>connectionId = cid, nickname = n\<rparr> (deleteClient x s))) \<longrightarrow>
               isl (fst (handleConnect e cid (Some q) s))))
       \<and> (\<forall>x. getConnectionIdByNickname n s = Some x \<and> transport e x Ping = Accepted \<longrightarrow>
            fst (handleConnect e cid (Some q) s) = Inr responseForbidden
          \<and> clients (snd (handleConnect e cid (Some q) s)) = clients s
          \<and> messages (snd (handleConnect e cid (Some q) s)) = messages s)"
proof (intro conjI allI impI)
  assume free: "getConnectionIdByNickname n s = None"
  then have eq: "handleConnect e cid (Some q) s = claimNickname e cid n s"
    using assms by (simp add: handleConnect_def)
  show "\<lparr>connectionId = cid, nickname = n\<rparr> \<in> set (clients (snd (handleConnect e cid (Some q) s)))"
    unfolding eq by (rule claimNickname_inserts)
  {
    assume "\<not> rosterFails e cid (clients (putClient \<lparr>connectionId = cid, nickname = n\<rparr> s))"
    then show "fst (handleConnect e cid (Some q) s) = Inr responseOk"
      unfolding eq using claimNickname_result(1)[of e cid n s] by simp
  }
  {
    assume "rosterFails e cid (clients (putClient \<lparr>connectionId = cid, nickname = n\<rparr> s))"
    then show "isl (fst (handleConnect e cid (Some q) s))"
      unfolding eq by (rule claimNickname_result(2))
  }
next
  fix x
  assume a: "getConnectionIdByNickname n s = Some x \<and> gone (transport e x Ping)"
  let ?p = "postToConnection e x Ping s"
  have ne: "x \<noteq> []"
    using nickname_lookup_Some[of n s x] a assms(3)
    by (auto simp: properIds_def list_all_iff)
  have r: "fst ?p = Inr False"
    using a by (simp add: postToConnection_result gone_def)
  have eq: "handleConnect e cid (Some q) s = claimNickname e cid n (snd ?p)"
    using assms a ne r by (simp add: handleConnect_def Let_def)
  have cl: "clients (snd ?p) = clients (deleteClient x s)"
    using a by (simp add: postToConnection_clients deleteClient_def Let_def)
  have pc: "clients (putClient \<lparr>connectionId = cid, nickname = n\<rparr> (snd ?p))
          = clients (putClient \<lparr>connectionId = cid, nickname = n\<rparr> (deleteClient x s))"
    by (simp add: putClient_clients cl)
  have gx: "getClient x (snd ?p) = None"
    using a by (simp add: getClient_def postToConnection_clients find_None_iff)
  show "\<lparr>connectionId = cid, nickname = n\<rparr> \<in> set (clients (snd (handleConnect e cid (Some q) s)))"
    unfolding eq by (rule claimNickname_inserts)
  {
    assume "x \<noteq> cid"
    then show "getClient x (snd (handleConnect e cid (Some q) s)) = None"
      unfolding eq by (rule claimNickname_absent[OF gx])
  }
  {
    assume "\<not> rosterFails e cid
        (clients (putClient \<lparr>connectionId = cid, nickname = n\<rparr> (deleteClient x s)))"
    then show "fst (handleConnect e cid (Some q) s) = Inr responseOk"
      unfolding eq using claimNickname_result(1)[of e cid n "snd ?p"] by (simp add: pc)
  }
  {
    assume "rosterFails e cid
        (clients (putClient \<lparr>connectionId = cid, nickname = n\<rparr> (deleteClient x s)))"
    then show "isl (fst (handleConnect e cid (Some q) s))"
      unfolding eq using claimNickname_result(2)[of e cid n "snd ?p"] by (simp add: pc)
  }
next
  fix x
  assume a: "getConnectionIdByNickname n s = Some x \<and> transport e x Ping = Accepted"
  let ?p = "postToConnection e x Ping s"
  have ne: "x \<noteq> []"
    using nickname_lookup_Some[of n s x] a assms(3)
    by (auto simp: properIds_def list_all_iff)
  have r: "fst ?p = Inr True"
    using a by (simp add: postToConnection_result)
  have eq: "handleConnect e cid (Some q) s = (Inr responseForbidden, snd ?p)"
    using assms a ne r by (simp add: handleConnect_def Let_def)
  show "fst (handleConnect e cid (Some q) s) = Inr responseForbidden"
    by (simp add: eq)
  show "clients (snd (handleConnect e cid (Some q) s)) = clients s"
    using a by (simp add: eq postToConnection_clients gone_def)
  show "messages (snd (handleConnect e cid (Some q) s)) = messages s"
    by (simp add: eq)
qed

text \<open>
  The theorem on the registry of alice and bob: carol gets her row; alice's nickname is
  handed over when \<^verbatim>\<open>c1\<close> is gone; it is refused when \<^verbatim>\<open>c1\<close> answers.
\<close>

theorem handleConnect_cases_witness:
  "[''nickname'' \<mapsto> ''carol''] ''nickname'' = Some ''carol'' \<and> ''carol'' \<noteq> []
   \<and> properIds (clients aliceAndBob)
   \<and> getConnectionIdByNickname ''carol'' aliceAndBob = None
   \<and> \<not> rosterFails (exampleEnv accepting) ''c3''
          (clients (putClient \<lparr>connectionId = ''c3'', nickname = ''carol''\<rparr> aliceAndBob))
   \<and> fst (handleConnect (exampleEnv accepting) ''c3'' (Some [''nickname'' \<mapsto> ''carol''])
        aliceAndBob) = Inr responseOk
   \<and> \<lparr>connectionId = ''c3'', nickname = ''carol''\<rparr>
       \<in> set (clients (snd (handleConnect (exampleEnv accepting) ''c3''
            (Some [''nickname'' \<mapsto> ''carol'']) aliceAndBob)))
   \<and> getConnectionIdByNickname ''alice'' aliceAndBob = Some ''c1''
   \<and> gone (transport (exampleEnv (answering ''c1'' (Rejected (Some 410)))) ''c1'' Ping)
   \<and> getClient ''c1'' (snd (handleConnect (exampleEnv (answering ''c1'' (Rejected (Some 410))))
        ''c3'' (Some [''nickname'' \<mapsto> ''alice'']) aliceAndBob)) = None
   \<and> \<lparr>connectionId = ''c3'', nickname = ''alice''\<rparr>
       \<in> set (clients (snd (handleConnect (exampleEnv (answering ''c1'' (Rejected (Some 410))))
            ''c3'' (Some [''nickname'' \<mapsto> ''alice'']) aliceAndBob)))
   \<and> transport (exampleEnv accepting) ''c1'' Ping = Accepted
   \<and> fst (handleConnect (exampleEnv accepting) ''c3'' (Some [''nickname'' \<mapsto> ''alice''])
        aliceAndBob) = Inr responseForbidden
   \<and> clients (snd (handleConnect (exampleEnv accepting) ''c3'' (Some [''nickname'' \<mapsto> ''alice''])
        aliceAndBob)) = [alice, bob]"
proof -
  let ?eg = "exampleEnv (answering ''c1'' (Rejected (Some 410)))"
  have n1: "[''nickname'' \<mapsto> ''carol''] ''nickname'' = Some ''carol''" "''carol'' \<noteq> []"
    and n2: "[''nickname'' \<mapsto> ''alice''] ''nickname'' = Some ''alice''" "''alice'' \<noteq> []"
    by simp_all
  have p: "properIds (clients aliceAndBob)"
    by (simp add: property_defs example_defs)
  have q: "getConnectionIdByNickname ''carol'' aliceAndBob = None"
    "\<not> rosterFails (exampleEnv accepting) ''c3''
          (clients (putClient \<lparr>connectionId = ''c3'', nickname = ''carol''\<rparr> aliceAndBob))"
    "getConnectionIdByNickname ''alice'' aliceAndBob = Some ''c1''"
    "gone (transport ?eg ''c1'' Ping)"
    "transport (exampleEnv accepting) ''c1'' Ping = Accepted"
    "clients aliceAndBob = [alice, bob]"
    by (simp_all add: model_defs property_defs example_defs)
  show ?thesis
    using handleConnect_cases[where q="[''nickname'' \<mapsto> ''carol'']" and n="''carol''"
        and s=aliceAndBob and e="exampleEnv accepting" and cid="''c3''"]
      handleConnect_cases[where q="[''nickname'' \<mapsto> ''alice'']" and n="''alice''"
        and s=aliceAndBob and e="?eg" and cid="''c3''"]
      handleConnect_cases[where q="[''nickname'' \<mapsto> ''alice'']" and n="''alice''"
        and s=aliceAndBob and e="exampleEnv accepting" and cid="''c3''"] n1 n2 p q
    by simp
qed

section \<open>Claims about messages\<close>

text \<open>
  Claim C4. For all nicknames \<open>x\<close> and \<open>y\<close> the key of their conversation is the two
  nicknames in lexicographic order, the smaller first, joined with the separator
  \<^verbatim>\<open>#\<close>; so it is the same whichever of the two is the sender. Consequently: let \<open>a\<close>
  on connection \<open>cA\<close> send a text to the nickname of \<open>b\<close>, and let both \<open>a\<close> and \<open>b\<close>
  (on connection \<open>cB\<close>) be registered afterwards. The stored message carries that key,
  and a history query of \<open>cA\<close> for the nickname of \<open>b\<close> and one of \<open>cB\<close> for the
  nickname of \<open>a\<close>, both without a start key and with a limit that covers the
  conversation, push one and the same list, which contains the message.
\<close>

theorem conversation_symmetric:
  fixes a b :: "client" and e :: "env" and w cA :: "string" and s :: "state"
  defines "k \<equiv> getNicknameToNickname [nickname a, nickname b]"
  defines "m \<equiv> buildMessage e a \<lparr>sm_message = w, recipientNickname = nickname b\<rparr>"
  defines "s1 \<equiv> snd (handleSendMessage e cA \<lparr>sm_message = w, recipientNickname = nickname b\<rparr> s)"
  defines "ms \<equiv> newestFirst (filter (\<lambda>x. nicknameToNickname x = k) (messages s1))"
  shows "(\<forall>x y. getNicknameToNickname [x, y] = (if x \<le> y then x @ ''#'' @ y else y @ ''#'' @ x)
              \<and> getNicknameToNickname [y, x] = getNicknameToNickname [x, y])
       \<and> (getClient cA s = Some a \<and> getClient cA s1 = Some a \<and> getClient cB s1 = Some b
            \<and> int (length (filter (\<lambda>x. nicknameToNickname x = k) (messages s1))) \<le> lim \<longrightarrow>
              getNicknameToNickname [nickname b, nickname a] = k
            \<and> k = (if nickname a \<le> nickname b then nickname a @ ''#'' @ nickname b
                   else nickname b @ ''#'' @ nickname a)
            \<and> nicknameToNickname m = k
            \<and> m \<in> set (messages s1)
            \<and> m \<in> set ms
            \<and> posted (snd (handleGetMessages e1 cA
                  \<lparr>targetNickname = nickname b, limit = lim, startKey = None\<rparr> s1))
                = posted s1 @ [(cA, MessagesMsg ms)]
            \<and> posted (snd (handleGetMessages e2 cB
                  \<lparr>targetNickname = nickname a, limit = lim, startKey = None\<rparr> s1))
                = posted s1 @ [(cB, MessagesMsg ms)])"
proof (intro conjI allI impI)
  fix x y :: string
  show "getNicknameToNickname [x, y] = (if x \<le> y then x @ ''#'' @ y else y @ ''#'' @ x)"
    by (rule key_sorted_joined)
  show "getNicknameToNickname [y, x] = getNicknameToNickname [x, y]"
    by (rule key_sym)
next
  assume h: "getClient cA s = Some a \<and> getClient cA s1 = Some a \<and> getClient cB s1 = Some b
            \<and> int (length (filter (\<lambda>x. nicknameToNickname x = k) (messages s1))) \<le> lim"
  have sym: "getNicknameToNickname [nickname b, nickname a] = k"
    unfolding k_def by (rule key_sym)
  have km: "nicknameToNickname m = k"
    by (simp add: m_def k_def buildMessage_def)
  have stored: "m \<in> set (messages s1)"
    using h unfolding s1_def m_def by (simp add: handleSendMessage_messages putMessage_stores)
  have cover: "int (length (filter (\<lambda>x. nicknameToNickname x = k) (messages s1))) \<le> lim"
    using h by simp
  have q: "queryMessages e' k lim None s1 = Inr ms" for e'
    unfolding ms_def by (rule queryMessages_all[OF stored km cover])
  have regA: "getClient cA s1 = Some a" and regB: "getClient cB s1 = Some b"
    using h by simp_all
  show "getNicknameToNickname [nickname b, nickname a] = k"
    by (rule sym)
  show "k = (if nickname a \<le> nickname b then nickname a @ ''#'' @ nickname b
             else nickname b @ ''#'' @ nickname a)"
    unfolding k_def by (rule key_sorted_joined)
  show "nicknameToNickname m = k"
    by (rule km)
  show "m \<in> set (messages s1)"
    by (rule stored)
  show "m \<in> set ms"
    using stored km by (simp add: ms_def newestFirst_def)
  show "posted (snd (handleGetMessages e1 cA
             \<lparr>targetNickname = nickname b, limit = lim, startKey = None\<rparr> s1))
           = posted s1 @ [(cA, MessagesMsg ms)]"
    by (rule handleGetMessages_posted[OF regA]) (simp add: q k_def[symmetric])
  show "posted (snd (handleGetMessages e2 cB
             \<lparr>targetNickname = nickname a, limit = lim, startKey = None\<rparr> s1))
           = posted s1 @ [(cB, MessagesMsg ms)]"
    by (rule handleGetMessages_posted[OF regB]) (simp add: q sym)
qed

text \<open>
  The theorem on the example of the spec: alice sends \<open>hi\<close> to bob, and each of the two
  reads the conversation with the other.
\<close>

theorem conversation_symmetric_witness:
  "getClient ''c1'' aliceAndBob = Some alice
   \<and> snd (handleSendMessage (exampleEnv accepting) ''c1''
          \<lparr>sm_message = ''hi'', recipientNickname = nickname bob\<rparr> aliceAndBob) = afterHi
   \<and> getClient ''c1'' afterHi = Some alice
   \<and> getClient ''c2'' afterHi = Some bob
   \<and> int (length (filter (\<lambda>x. nicknameToNickname x = ''alice#bob'') (messages afterHi))) \<le> 10
   \<and> getNicknameToNickname [''bob'', ''alice''] = ''alice#bob''
   \<and> getNicknameToNickname [''alice'', ''bob''] = ''alice#bob''
   \<and> ''alice'' \<le> ''bob'' \<and> ''alice'' @ ''#'' @ ''bob'' = ''alice#bob''
   \<and> nicknameToNickname hi = ''alice#bob''
   \<and> posted (snd (handleGetMessages (exampleEnv accepting) ''c1''
         \<lparr>targetNickname = ''bob'', limit = 10, startKey = None\<rparr> afterHi))
       = [(''c2'', MessageMsg hi), (''c1'', MessagesMsg [hi])]
   \<and> posted (snd (handleGetMessages (exampleEnv accepting) ''c2''
         \<lparr>targetNickname = ''alice'', limit = 10, startKey = None\<rparr> afterHi))
       = [(''c2'', MessageMsg hi), (''c2'', MessagesMsg [hi])]
   \<and> handle (exampleEnv accepting) (bodyEvent ''c2'' ''getMessages'' (Some historyWithAlice))
         afterHi
       = (Inr responseOk, afterHi\<lparr>posted := [(''c2'', MessageMsg hi), (''c2'', MessagesMsg [hi])]\<rparr>)"
proof -
  let ?e = "exampleEnv accepting"
  have s1: "snd (handleSendMessage ?e ''c1''
          \<lparr>sm_message = ''hi'', recipientNickname = nickname bob\<rparr> aliceAndBob) = afterHi"
    by (simp add: model_defs example_defs)
  have k: "getNicknameToNickname [nickname alice, nickname bob] = ''alice#bob''"
    "getNicknameToNickname [''bob'', ''alice''] = ''alice#bob''"
    "getNicknameToNickname [''alice'', ''bob''] = ''alice#bob''"
    by (simp_all add: getNicknameToNickname_def alice_def bob_def)
  have g: "getClient ''c1'' aliceAndBob = Some alice"
    "getClient ''c1'' afterHi = Some alice" "getClient ''c2'' afterHi = Some bob"
    by (simp_all add: getClient_def example_defs)
  have n: "int (length (filter (\<lambda>x. nicknameToNickname x = ''alice#bob'') (messages afterHi))) \<le> 10"
    by (simp add: example_defs)
  have h: "handle ?e (bodyEvent ''c2'' ''getMessages'' (Some historyWithAlice)) afterHi
       = (Inr responseOk, afterHi\<lparr>posted := [(''c2'', MessageMsg hi), (''c2'', MessagesMsg [hi])]\<rparr>)"
    by (simp add: model_defs example_defs)
  have q: "newestFirst (filter (\<lambda>x. nicknameToNickname x = ''alice#bob'') (messages afterHi)) = [hi]"
    "posted afterHi = [(''c2'', MessageMsg hi)]"
    "nickname alice = ''alice''" "nickname bob = ''bob''"
    "''alice'' \<le> ''bob''" "nicknameToNickname hi = ''alice#bob''"
    by (simp_all add: newestFirst_def example_defs)
  show ?thesis
    using conversation_symmetric[where a=alice and b=bob and e="?e" and w="''hi''"
        and cA="''c1''" and cB="''c2''" and s=aliceAndBob and lim=10 and ?e1.0="?e" and ?e2.0="?e"]
      s1 k g n q h
    by simp
qed

text \<open>
  Claim C5, as stated, fails: alice on \<^verbatim>\<open>c1\<close> sends \<open>hi\<close> to bob on \<^verbatim>\<open>c2\<close>. The send
  succeeds and the message is stored; the only push goes to \<^verbatim>\<open>c2\<close>, none to \<^verbatim>\<open>c1\<close>.
\<close>

theorem sender_confirmation_counterexample:
  "getClient ''c1'' aliceAndBob = Some alice
   \<and> fst (handleSendMessage (exampleEnv accepting) ''c1''
         \<lparr>sm_message = ''hi'', recipientNickname = ''bob''\<rparr> aliceAndBob) = Inr responseOk
   \<and> messages (snd (handleSendMessage (exampleEnv accepting) ''c1''
         \<lparr>sm_message = ''hi'', recipientNickname = ''bob''\<rparr> aliceAndBob)) = [hi]
   \<and> posted (snd (handleSendMessage (exampleEnv accepting) ''c1''
         \<lparr>sm_message = ''hi'', recipientNickname = ''bob''\<rparr> aliceAndBob))
       = [(''c2'', MessageMsg hi)]
   \<and> (''c1'', MessageMsg hi)
       \<notin> set (posted (snd (handleSendMessage (exampleEnv accepting) ''c1''
         \<lparr>sm_message = ''hi'', recipientNickname = ''bob''\<rparr> aliceAndBob)))"
  by (simp add: model_defs example_defs)

text \<open>
  Claim C5, amended. A send from a registered connection stores the message and issues
  at most one push: the stored message goes to the connection of the first row that
  carries the recipient nickname, if there is such a row. Unless that connection is the
  sender's own, nothing is pushed to the sender.
\<close>

theorem send_pushes_to_recipient_only:
  assumes "getClient cid s = Some c"
  shows "buildMessage e c b \<in> set (messages (snd (handleSendMessage e cid b s)))
       \<and> posted (snd (handleSendMessage e cid b s)) =
           posted s @
             (case getConnectionIdByNickname (recipientNickname b) s of
                None \<Rightarrow> []
              | Some x \<Rightarrow> if x = [] then [] else [(x, MessageMsg (buildMessage e c b))])
       \<and> (getConnectionIdByNickname (recipientNickname b) s \<noteq> Some cid \<longrightarrow>
            (\<forall>d. (cid, d) \<in> set (posted (snd (handleSendMessage e cid b s))) \<longrightarrow>
                 (cid, d) \<in> set (posted s)))"
  unfolding handleSendMessage_registered[OF assms]
  by (auto simp: putMessage_stores split: option.splits)

text \<open>The theorem at the send of alice to bob.\<close>

theorem send_pushes_to_recipient_only_witness:
  "getClient ''c1'' aliceAndBob = Some alice
   \<and> getConnectionIdByNickname ''bob'' aliceAndBob \<noteq> Some ''c1''
   \<and> hi \<in> set (messages (snd (handleSendMessage (exampleEnv accepting) ''c1''
            \<lparr>sm_message = ''hi'', recipientNickname = ''bob''\<rparr> aliceAndBob)))
   \<and> posted (snd (handleSendMessage (exampleEnv accepting) ''c1''
         \<lparr>sm_message = ''hi'', recipientNickname = ''bob''\<rparr> aliceAndBob))
       = [(''c2'', MessageMsg hi)]
   \<and> (\<forall>d. (''c1'', d) \<notin> set (posted (snd (handleSendMessage (exampleEnv accepting) ''c1''
         \<lparr>sm_message = ''hi'', recipientNickname = ''bob''\<rparr> aliceAndBob))))"
proof -
  have g: "getClient ''c1'' aliceAndBob = Some alice"
    by (simp add: model_defs example_defs)
  have q: "getConnectionIdByNickname ''bob'' aliceAndBob = Some ''c2''"
    "posted aliceAndBob = []"
    "buildMessage (exampleEnv accepting) alice \<lparr>sm_message = ''hi'', recipientNickname = ''bob''\<rparr>
      = hi"
    by (simp_all add: model_defs example_defs)
  show ?thesis
    using send_pushes_to_recipient_only[OF g, of "exampleEnv accepting"
        "\<lparr>sm_message = ''hi'', recipientNickname = ''bob''\<rparr>"] g q
    by simp
qed

text \<open>
  Claim C8. Take a \<^verbatim>\<open>sendMessage\<close> event with a well-formed body from a registered
  connection. If no row carries the recipient nickname, the message is stored, the
  result is the success response, nothing is pushed and the registry is as it was. If a
  row carries it and its connection turns out to be gone (status 410), the message is
  stored as well and the result is the success response.
\<close>

theorem send_without_live_recipient:
  assumes "routeKey ev = ''sendMessage''"
    and "parseSendMessageBody e (ev_body ev) = Inr b"
    and "getClient (ev_connectionId ev) s = Some c"
  shows "(getConnectionIdByNickname (recipientNickname b) s = None \<longrightarrow>
            handle e ev s = (Inr responseOk, putMessage (buildMessage e c b) s)
          \<and> buildMessage e c b \<in> set (messages (snd (handle e ev s)))
          \<and> posted (snd (handle e ev s)) = posted s
          \<and> clients (snd (handle e ev s)) = clients s)
       \<and> (\<forall>x. getConnectionIdByNickname (recipientNickname b) s = Some x
               \<and> gone (transport e x (MessageMsg (buildMessage e c b))) \<longrightarrow>
            fst (handle e ev s) = Inr responseOk
          \<and> buildMessage e c b \<in> set (messages (snd (handle e ev s))))"
  unfolding handle_sendMessage[OF assms(1,2)] handleSendMessage_registered[OF assms(3)]
  by (auto simp: putMessage_stores thenReturn_fst postToConnection_result gone_def)

text \<open>
  The theorem at a message of alice to carol, who has no row, and at a message to bob,
  whose connection is gone.
\<close>

theorem send_without_live_recipient_witness:
  "routeKey (bodyEvent ''c1'' ''sendMessage'' (Some hiToCarol)) = ''sendMessage''
   \<and> getClient ''c1'' aliceAndBob = Some alice
   \<and> getConnectionIdByNickname ''carol'' aliceAndBob = None
   \<and> handle (exampleEnv accepting) (bodyEvent ''c1'' ''sendMessage'' (Some hiToCarol)) aliceAndBob
       = (Inr responseOk, putMessage hiCarol aliceAndBob)
   \<and> messages (putMessage hiCarol aliceAndBob) = [hiCarol]
   \<and> getConnectionIdByNickname ''bob'' aliceAndBob = Some ''c2''
   \<and> gone (transport (exampleEnv (answering ''c2'' (Rejected (Some 410)))) ''c2'' (MessageMsg hi))
   \<and> fst (handle (exampleEnv (answering ''c2'' (Rejected (Some 410))))
            (bodyEvent ''c1'' ''sendMessage'' (Some hiToBob)) aliceAndBob) = Inr responseOk
   \<and> hi \<in> set (messages (snd (handle (exampleEnv (answering ''c2'' (Rejected (Some 410))))
            (bodyEvent ''c1'' ''sendMessage'' (Some hiToBob)) aliceAndBob)))"
proof -
  let ?ev = "bodyEvent ''c1'' ''sendMessage'' (Some hiToCarol)"
  let ?ev2 = "bodyEvent ''c1'' ''sendMessage'' (Some hiToBob)"
  let ?e2 = "exampleEnv (answering ''c2'' (Rejected (Some 410)))"
  have h1: "routeKey ?ev = ''sendMessage''" "routeKey ?ev2 = ''sendMessage''"
    by (simp_all add: example_defs)
  have h2: "parseSendMessageBody (exampleEnv accepting) (ev_body ?ev)
      = Inr \<lparr>sm_message = ''hi'', recipientNickname = ''carol''\<rparr>"
    by (simp add: model_defs example_defs)
  have h2': "parseSendMessageBody ?e2 (ev_body ?ev2)
      = Inr \<lparr>sm_message = ''hi'', recipientNickname = ''bob''\<rparr>"
    by (simp add: model_defs example_defs)
  have h3: "getClient (ev_connectionId ?ev) aliceAndBob = Some alice"
     "getClient (ev_connectionId ?ev2) aliceAndBob = Some alice"
    by (simp_all add: model_defs example_defs)
  have q: "getClient ''c1'' aliceAndBob = Some alice"
    "getConnectionIdByNickname ''carol'' aliceAndBob = None"
    "getConnectionIdByNickname ''bob'' aliceAndBob = Some ''c2''"
    "buildMessage (exampleEnv accepting) alice \<lparr>sm_message = ''hi'', recipientNickname = ''carol''\<rparr>
      = hiCarol"
    "buildMessage ?e2 alice \<lparr>sm_message = ''hi'', recipientNickname = ''bob''\<rparr> = hi"
    "gone (transport ?e2 ''c2'' (MessageMsg hi))"
    "messages (putMessage hiCarol aliceAndBob) = [hiCarol]"
    by (simp_all add: model_defs example_defs property_defs)
  show ?thesis
    using send_without_live_recipient[OF h1(1) h2 h3(1)]
      send_without_live_recipient[OF h1(2) h2' h3(2)] h1 q
    by simp
qed

section \<open>Claims about errors\<close>

text \<open>
  Claim C10. Let the body parser of a \<^verbatim>\<open>sendMessage\<close> or \<^verbatim>\<open>getMessages\<close> request throw
  a \<^verbatim>\<open>HandleError\<close>. The error event is pushed to the connection of the request. If
  that push meets status 410, the rows of the connection are deleted and the result is
  still the success response; if it is rejected in any other way, that error is the
  result of \<^verbatim>\<open>handle\<close> and the registry is as it was.
\<close>

theorem error_delivery_outcomes:
  assumes "routeKey ev = ''sendMessage'' \<and> parseSendMessageBody e (ev_body ev) = Inl (HandleError msg)
         \<or> routeKey ev = ''getMessages'' \<and> parseGetMessagesBody e (ev_body ev) = Inl (HandleError msg)"
  shows "posted (snd (handle e ev s)) = posted s @ [(ev_connectionId ev, ErrorMsg msg)]
       \<and> (gone (transport e (ev_connectionId ev) (ErrorMsg msg)) \<longrightarrow>
            fst (handle e ev s) = Inr responseOk
          \<and> clients (snd (handle e ev s)) =
              filter (\<lambda>c. connectionId c \<noteq> ev_connectionId ev) (clients s))
       \<and> (\<forall>code. transport e (ev_connectionId ev) (ErrorMsg msg) = Rejected code \<and> code \<noteq> Some 410 \<longrightarrow>
            fst (handle e ev s) = Inl (AWSError code)
          \<and> clients (snd (handle e ev s)) = clients s)"
  unfolding handle_caught[OF assms] catchHandleError_HandleError
  by (auto simp: thenReturn_fst postToConnection_result postToConnection_clients gone_def)

text \<open>
  The theorem at two requests of alice without a body: the error push of the first meets
  status 410, that of the second status 500.
\<close>

theorem error_delivery_outcomes_witness:
  "parseSendMessageBody (exampleEnv (answering ''c1'' (Rejected (Some 410)))) None
     = Inl (HandleError ''Incorrect SendMessageBody format'')
   \<and> gone (transport (exampleEnv (answering ''c1'' (Rejected (Some 410)))) ''c1''
            (ErrorMsg ''Incorrect SendMessageBody format''))
   \<and> fst (handle (exampleEnv (answering ''c1'' (Rejected (Some 410))))
            (bodyEvent ''c1'' ''sendMessage'' None) aliceAndBob) = Inr responseOk
   \<and> clients (snd (handle (exampleEnv (answering ''c1'' (Rejected (Some 410))))
            (bodyEvent ''c1'' ''sendMessage'' None) aliceAndBob)) = [bob]
   \<and> parseGetMessagesBody (exampleEnv (answering ''c1'' (Rejected (Some 500)))) None
     = Inl (HandleError ''Incorrect GetMessages format'')
   \<and> fst (handle (exampleEnv (answering ''c1'' (Rejected (Some 500))))
            (bodyEvent ''c1'' ''getMessages'' None) aliceAndBob) = Inl (AWSError (Some 500))
   \<and> clients (snd (handle (exampleEnv (answering ''c1'' (Rejected (Some 500))))
            (bodyEvent ''c1'' ''getMessages'' None) aliceAndBob)) = [alice, bob]"
proof -
  let ?eg = "exampleEnv (answering ''c1'' (Rejected (Some 410)))"
  let ?ef = "exampleEnv (answering ''c1'' (Rejected (Some 500)))"
  have p1: "routeKey (bodyEvent ''c1'' ''sendMessage'' None) = ''sendMessage''
            \<and> parseSendMessageBody ?eg (ev_body (bodyEvent ''c1'' ''sendMessage'' None))
               = Inl (HandleError ''Incorrect SendMessageBody format'')
          \<or> routeKey (bodyEvent ''c1'' ''sendMessage'' None) = ''getMessages''
            \<and> parseGetMessagesBody ?eg (ev_body (bodyEvent ''c1'' ''sendMessage'' None))
               = Inl (HandleError ''Incorrect SendMessageBody format'')"
    by (simp add: model_defs example_defs)
  have p2: "routeKey (bodyEvent ''c1'' ''getMessages'' None) = ''sendMessage''
            \<and> parseSendMessageBody ?ef (ev_body (bodyEvent ''c1'' ''getMessages'' None))
               = Inl (HandleError ''Incorrect GetMessages format'')
          \<or> routeKey (bodyEvent ''c1'' ''getMessages'' None) = ''getMessages''
            \<and> parseGetMessagesBody ?ef (ev_body (bodyEvent ''c1'' ''getMessages'' None))
               = Inl (HandleError ''Incorrect GetMessages format'')"
    by (simp add: model_defs example_defs)
  have q: "parseSendMessageBody ?eg None = Inl (HandleError ''Incorrect SendMessageBody format'')"
    "parseGetMessagesBody ?ef None = Inl (HandleError ''Incorrect GetMessages format'')"
    "gone (transport ?eg ''c1'' (ErrorMsg ''Incorrect SendMessageBody format''))"
    "transport ?ef ''c1'' (ErrorMsg ''Incorrect GetMessages format'') = Rejected (Some 500)"
    "ev_connectionId (bodyEvent ''c1'' ''sendMessage'' None) = ''c1''"
    "ev_connectionId (bodyEvent ''c1'' ''getMessages'' None) = ''c1''"
    "filter (\<lambda>c. connectionId c \<noteq> ''c1'') (clients aliceAndBob) = [bob]"
    "clients aliceAndBob = [alice, bob]"
    by (simp_all add: model_defs example_defs property_defs)
  show ?thesis
    using error_delivery_outcomes[OF p1, of aliceAndBob] error_delivery_outcomes[OF p2, of aliceAndBob] q
    by simp
qed

text \<open>
  Claim C6 against the code: a \<^verbatim>\<open>sendMessage\<close> or \<^verbatim>\<open>getMessages\<close> request with a
  well-formed body from a connection without a row is answered with a \<^verbatim>\<open>TypeError\<close>, the
  rejection of \<^verbatim>\<open>handle\<close>; nothing is pushed and nothing is stored.
\<close>

theorem unregistered_request_throws:
  assumes "getClient (ev_connectionId ev) s = None"
    and "routeKey ev = ''sendMessage'' \<and> \<not> isl (parseSendMessageBody e (ev_body ev))
       \<or> routeKey ev = ''getMessages'' \<and> \<not> isl (parseGetMessagesBody e (ev_body ev))"
  shows "handle e ev s = (Inl TypeError, s)"
  using assms
  by (auto simp: handle_def Let_def handleSendMessage_def handleGetMessages_def split: sum.splits)

text \<open>The theorem at a message to bob from the connection \<^verbatim>\<open>c9\<close>, which has no row.\<close>

theorem unregistered_request_throws_witness:
  "getClient ''c9'' aliceAndBob = None
   \<and> parseSendMessageBody (exampleEnv accepting) (Some hiToBob)
       = Inr \<lparr>sm_message = ''hi'', recipientNickname = ''bob''\<rparr>
   \<and> handle (exampleEnv accepting) (bodyEvent ''c9'' ''sendMessage'' (Some hiToBob)) aliceAndBob
       = (Inl TypeError, aliceAndBob)"
proof -
  let ?ev = "bodyEvent ''c9'' ''sendMessage'' (Some hiToBob)"
  have g: "getClient (ev_connectionId ?ev) aliceAndBob = None"
    by (simp add: model_defs example_defs)
  have p: "routeKey ?ev = ''sendMessage''
             \<and> \<not> isl (parseSendMessageBody (exampleEnv accepting) (ev_body ?ev))
         \<or> routeKey ?ev = ''getMessages''
             \<and> \<not> isl (parseGetMessagesBody (exampleEnv accepting) (ev_body ?ev))"
    by (simp add: model_defs example_defs)
  have q: "getClient ''c9'' aliceAndBob = None"
    "parseSendMessageBody (exampleEnv accepting) (Some hiToBob)
       = Inr \<lparr>sm_message = ''hi'', recipientNickname = ''bob''\<rparr>"
    by (simp_all add: model_defs example_defs)
  show ?thesis
    using unregistered_request_throws[OF g p] q by simp
qed

text \<open>
  Claim C7, as stated, fails twice: a body that is no JSON text makes \<^verbatim>\<open>JSON.parse\<close>
  throw a \<^verbatim>\<open>SyntaxError\<close>, which \<^verbatim>\<open>handle\<close> throws again without any push; and a
  body without the required fields is answered with the error of the transport when the
  push of the error event meets status 500.
\<close>

theorem validation_error_counterexample:
  "fst (handle (exampleEnv accepting) (bodyEvent ''c1'' ''sendMessage'' (Some ''{'')) aliceAndBob)
     = Inl SyntaxError
   \<and> posted (snd (handle (exampleEnv accepting) (bodyEvent ''c1'' ''sendMessage'' (Some ''{''))
        aliceAndBob)) = []
   \<and> fst (handle (exampleEnv (answering ''c1'' (Rejected (Some 500))))
           (bodyEvent ''c1'' ''sendMessage'' None) aliceAndBob) = Inl (AWSError (Some 500))"
  by (simp add: model_defs example_defs)

text \<open>
  Claim C7, amended. Let the body of a \<^verbatim>\<open>sendMessage\<close> or \<^verbatim>\<open>getMessages\<close> request be
  absent, empty or a JSON text, and let the parsed value lack a required field of the
  required type. Then one error event with the message of the route is pushed to the
  connection of the request and no message is stored. The result is the success response
  with status 200 unless the transport rejects that push with a status other than 410,
  in which case \<^verbatim>\<open>handle\<close> throws.
\<close>

theorem validation_error_reported:
  assumes "parseBody e (ev_body ev) = Inr v"
    and "routeKey ev = ''sendMessage''
           \<and> (stringField v ''message'' = None \<or> stringField v ''recipientNickname'' = None)
         \<or> routeKey ev = ''getMessages''
           \<and> (stringField v ''targetNickname'' = None \<or> numberField v ''limit'' = None)"
  shows "posted (snd (handle e ev s)) =
           posted s @ [(ev_connectionId ev, ErrorMsg (formatError (routeKey ev)))]
       \<and> messages (snd (handle e ev s)) = messages s
       \<and> (\<not> failed (transport e (ev_connectionId ev) (ErrorMsg (formatError (routeKey ev)))) \<longrightarrow>
            fst (handle e ev s) = Inr responseOk \<and> statusCode responseOk = 200)
       \<and> (failed (transport e (ev_connectionId ev) (ErrorMsg (formatError (routeKey ev)))) \<longrightarrow>
            isl (fst (handle e ev s)))"
proof -
  have "routeKey ev = ''sendMessage''
          \<and> parseSendMessageBody e (ev_body ev) = Inl (HandleError (formatError (routeKey ev)))
      \<or> routeKey ev = ''getMessages''
          \<and> parseGetMessagesBody e (ev_body ev) = Inl (HandleError (formatError (routeKey ev)))"
    using assms
    by (auto simp: parseSendMessageBody_def parseGetMessagesBody_def formatError_def
        split: option.splits)
  from handle_caught[OF this] show ?thesis
    by (auto simp: catchHandleError_HandleError thenReturn_fst postToConnection_result
        failed_def responseOk_def split: outcome.splits)
qed

text \<open>The theorem at a request of alice without a body, whose error push meets status 410.\<close>

theorem validation_error_reported_witness:
  "parseBody (exampleEnv (answering ''c1'' (Rejected (Some 410)))) None = Inr (JObject [])
   \<and> stringField (JObject []) ''message'' = None
   \<and> \<not> failed (transport (exampleEnv (answering ''c1'' (Rejected (Some 410)))) ''c1''
               (ErrorMsg ''Incorrect SendMessageBody format''))
   \<and> posted (snd (handle (exampleEnv (answering ''c1'' (Rejected (Some 410))))
        (bodyEvent ''c1'' ''sendMessage'' None) aliceAndBob))
       = [(''c1'', ErrorMsg ''Incorrect SendMessageBody format'')]
   \<and> fst (handle (exampleEnv (answering ''c1'' (Rejected (Some 410))))
        (bodyEvent ''c1'' ''sendMessage'' None) aliceAndBob) = Inr responseOk"
proof -
  let ?e = "exampleEnv (answering ''c1'' (Rejected (Some 410)))"
  let ?ev = "bodyEvent ''c1'' ''sendMessage'' None"
  have p: "parseBody ?e (ev_body ?ev) = Inr (JObject [])"
    by (simp add: model_defs example_defs)
  have m: "routeKey ?ev = ''sendMessage''
           \<and> (stringField (JObject []) ''message'' = None
              \<or> stringField (JObject []) ''recipientNickname'' = None)
         \<or> routeKey ?ev = ''getMessages''
           \<and> (stringField (JObject []) ''targetNickname'' = None
              \<or> numberField (JObject []) ''limit'' = None)"
    by (simp add: model_defs example_defs)
  have q: "parseBody ?e None = Inr (JObject [])" "stringField (JObject []) ''message'' = None"
    "\<not> failed (transport ?e ''c1'' (ErrorMsg ''Incorrect SendMessageBody format''))"
    "ev_connectionId ?ev = ''c1''" "formatError (routeKey ?ev) = ''Incorrect SendMessageBody format''"
    "posted aliceAndBob = []"
    by (simp_all add: model_defs example_defs property_defs formatError_def)
  show ?thesis
    using validation_error_reported[OF p m, of aliceAndBob] q by simp
qed

end
